theory Spec2Isabelle
  imports Main "HOL-Library.Sublist"
begin

section \<open>Python strings\<close>

text \<open>
  A Python \<open>str\<close> is modelled by its UTF-8 bytes (\<open>string\<close>). The program's own
  patterns (\<open>"local_"\<close>, \<open>"_"\<close>, the code fence) are ASCII, and UTF-8 never repeats an
  ASCII byte inside a longer code point, so searching and replacing them byte by byte is
  what Python does code point by code point. White space is decided code point by code
  point. Case mapping is modelled for ASCII only: a byte above 127 is taken as uncased,
  so \<open>py_title\<close> below is \<open>str.title\<close> on ASCII strings.
\<close>

text \<open>\<open>s.replace(old, new)\<close>: every non-overlapping occurrence, scanning from the left.
  With an empty \<open>old\<close> Python puts \<open>new\<close> before every character and at the end.\<close>

function replace_from :: "string \<Rightarrow> string \<Rightarrow> string \<Rightarrow> string" where
  "replace_from old new [] = []"
| "replace_from old new (c # cs) =
     (if old \<noteq> [] \<and> prefix old (c # cs)
      then new @ replace_from old new (drop (length old) (c # cs))
      else c # replace_from old new cs)"
  by pat_completeness auto
termination
  by (relation "measure (\<lambda>(old, new, s). length s)") auto

definition py_replace :: "string \<Rightarrow> string \<Rightarrow> string \<Rightarrow> string" where
  "py_replace old new s =
     (if old = [] then new @ concat (map (\<lambda>c. c # new) s) else replace_from old new s)"

text \<open>The characters of a \<open>str\<close>, one string per code point: a UTF-8 lead byte with
  the continuation bytes (0x80 to 0xBF) that follow it.\<close>

definition is_continuation :: "char \<Rightarrow> bool" where
  "is_continuation c \<longleftrightarrow> 128 \<le> (of_char c :: nat) \<and> (of_char c :: nat) < 192"

function py_chars :: "string \<Rightarrow> string list" where
  "py_chars [] = []"
| "py_chars (c # cs) = (c # takeWhile is_continuation cs) # py_chars (dropWhile is_continuation cs)"
  by pat_completeness auto
termination
  by (relation "measure length") (auto simp: length_dropWhile_le less_Suc_eq_le)

text \<open>
  \<open>str.isspace\<close>, which \<open>s.strip()\<close> and the regular expression class \<open>\s\<close> both use:
  the 29 white-space code points U+0009 to U+000D, U+001C to U+0020, U+0085, U+00A0,
  U+1680, U+2000 to U+200A, U+2028, U+2029, U+202F, U+205F and U+3000, each by its bytes.
\<close>

definition unicode_whitespace :: "string list" where
  "unicode_whitespace =
     [[CHR 0x09], [CHR 0x0A], [CHR 0x0B], [CHR 0x0C], [CHR 0x0D], [CHR 0x1C], [CHR 0x1D],
      [CHR 0x1E], [CHR 0x1F], [CHR 0x20], [CHR 0xC2, CHR 0x85], [CHR 0xC2, CHR 0xA0],
      [CHR 0xE1, CHR 0x9A, CHR 0x80], [CHR 0xE2, CHR 0x80, CHR 0x80],
      [CHR 0xE2, CHR 0x80, CHR 0x81], [CHR 0xE2, CHR 0x80, CHR 0x82],
      [CHR 0xE2, CHR 0x80, CHR 0x83], [CHR 0xE2, CHR 0x80, CHR 0x84],
      [CHR 0xE2, CHR 0x80, CHR 0x85], [CHR 0xE2, CHR 0x80, CHR 0x86],
      [CHR 0xE2, CHR 0x80, CHR 0x87], [CHR 0xE2, CHR 0x80, CHR 0x88],
      [CHR 0xE2, CHR 0x80, CHR 0x89], [CHR 0xE2, CHR 0x80, CHR 0x8A],
      [CHR 0xE2, CHR 0x80, CHR 0xA8], [CHR 0xE2, CHR 0x80, CHR 0xA9],
      [CHR 0xE2, CHR 0x80, CHR 0xAF], [CHR 0xE2, CHR 0x81, CHR 0x9F],
      [CHR 0xE3, CHR 0x80, CHR 0x80]]"

definition is_space :: "string \<Rightarrow> bool" where
  "is_space ch \<longleftrightarrow> ch \<in> set unicode_whitespace"

definition lstrip_chars :: "string list \<Rightarrow> string list" where
  "lstrip_chars chs = dropWhile is_space chs"

definition rstrip_chars :: "string list \<Rightarrow> string list" where
  "rstrip_chars chs = rev (dropWhile is_space (rev chs))"

definition py_strip :: "string \<Rightarrow> string" where
  "py_strip s = concat (rstrip_chars (lstrip_chars (py_chars s)))"














section \<open>Python values and exceptions\<close>

text \<open>
  The values the program passes around untyped: what \<open>json.loads\<close> returns and what the
  plan dictionaries hold. A \<open>float\<close> is kept as the decimal literal it was read from
  (mantissa and power of ten); no arithmetic is done on it here. A \<open>dict\<close> is an
  association list in insertion order.
\<close>

type_synonym pyfloat = "int \<times> int"

datatype pyval =
    PNone
  | PBool bool
  | PInt int
  | PFloat pyfloat
  | PStr string
  | PList "pyval list"
  | PDict "(string \<times> pyval) list"

text \<open>\<open>d.get(key, default)\<close> on a dictionary.\<close>

definition dict_get :: "(string \<times> pyval) list \<Rightarrow> string \<Rightarrow> pyval \<Rightarrow> pyval" where
  "dict_get d k dflt = (case map_of d k of Some v \<Rightarrow> v | None \<Rightarrow> dflt)"

text \<open>\<open>d[key] = v\<close> on a dictionary that has the key: the entry keeps its place.\<close>

definition dict_set :: "(string \<times> pyval) list \<Rightarrow> string \<Rightarrow> pyval \<Rightarrow> (string \<times> pyval) list" where
  "dict_set d k v = map (\<lambda>(k', v'). if k' = k then (k', v) else (k', v')) d"

text \<open>\<open>type(v).__name__\<close>, as Python's error messages print it.\<close>

fun type_name :: "pyval \<Rightarrow> string" where
  "type_name PNone = ''NoneType''"
| "type_name (PBool _) = ''bool''"
| "type_name (PInt _) = ''int''"
| "type_name (PFloat _) = ''float''"
| "type_name (PStr _) = ''str''"
| "type_name (PList _) = ''list''"
| "type_name (PDict _) = ''dict''"

text \<open>
  An instance of Python's \<open>Exception\<close>, by the two things the program observes of it:
  whether \<open>except ImportError\<close> catches it, and its \<open>str()\<close>. Signals below
  \<open>BaseException\<close> only (keyboard interrupt, interpreter exit) are not modelled.
\<close>

datatype pyexc = PyExc (isinstance_ImportError: bool) (str_exc: string)

section \<open>Tables (pandas DataFrame)\<close>

text \<open>
  A DataFrame is its row count and its named columns; a column has one dtype. Integer
  columns are \<open>int64\<close>, \<open>FloatCol\<close> is \<open>float64\<close>, \<open>StrCol\<close> is the \<open>object\<close> dtype of
  strings, \<open>BoolCol\<close> is \<open>bool\<close>. Other dtypes (dates, durations, nullable
  integers) are not modelled.
\<close>

datatype coldata =
    IntCol "int list"
  | FloatCol "pyfloat list"
  | StrCol "string list"
  | BoolCol "bool list"

record dataframe =
  index_len :: nat
  columns :: "(string \<times> coldata) list"

text \<open>\<open>pd.DataFrame()\<close>: no rows, no columns.\<close>

definition empty_DataFrame :: dataframe where
  "empty_DataFrame = \<lparr>index_len = 0, columns = []\<rparr>"

text \<open>\<open>df.empty\<close>: some axis has length 0. \<open>len(df)\<close>: the number of rows.\<close>

definition df_empty :: "dataframe \<Rightarrow> bool" where
  "df_empty df \<longleftrightarrow> index_len df = 0 \<or> columns df = []"

definition columns_tolist :: "dataframe \<Rightarrow> string list" where
  "columns_tolist df = map fst (columns df)"

text \<open>\<open>df.select_dtypes("number").columns\<close>: the integer and float columns, in order.\<close>

fun is_number :: "coldata \<Rightarrow> bool" where
  "is_number (IntCol _) = True"
| "is_number (FloatCol _) = True"
| "is_number (StrCol _) = False"
| "is_number (BoolCol _) = False"

definition select_dtypes_number :: "dataframe \<Rightarrow> string list" where
  "select_dtypes_number df = map fst (filter (\<lambda>(name, data). is_number data) (columns df))"

section \<open>The registry: \<^verbatim>\<open>backend/models_config.py\<close>\<close>

record model_info =
  model_id :: string
  model_label :: string
  model_description :: string
  model_icon :: string

definition AVAILABLE_MODELS :: "model_info list" where
  "AVAILABLE_MODELS = [
     \<lparr>model_id = ''gemini-2.0-flash-001'',
      model_label = ''Gemini 2.0 Flash '' @ [CHR 0xE2, CHR 0x9A, CHR 0xA1],
      model_description = ''Fastest model '' @ [CHR 0xE2, CHR 0x80, CHR 0x94] @ '' ideal for demos and quick Q&A'',
      model_icon = [CHR 0xE2, CHR 0x9A, CHR 0xA1]\<rparr>,
     \<lparr>model_id = ''gemini-1.5-pro-002'',
      model_label = ''Gemini 1.5 Pro '' @ [CHR 0xF0, CHR 0x9F, CHR 0xA7, CHR 0xA0],
      model_description = ''Most capable '' @ [CHR 0xE2, CHR 0x80, CHR 0x94] @ '' best for complex multi-step reasoning'',
      model_icon = [CHR 0xF0, CHR 0x9F, CHR 0xA7, CHR 0xA0]\<rparr>,
     \<lparr>model_id = ''gemini-1.5-flash-002'',
      model_label = ''Gemini 1.5 Flash '' @ [CHR 0xE2, CHR 0x9A, CHR 0x96, CHR 0xEF, CHR 0xB8, CHR 0x8F],
      model_description = ''Balanced speed and quality'',
      model_icon = [CHR 0xE2, CHR 0x9A, CHR 0x96, CHR 0xEF, CHR 0xB8, CHR 0x8F]\<rparr>,
     \<lparr>model_id = ''gemini-1.0-pro-002'',
      model_label = ''Gemini 1.0 Pro '' @ [CHR 0xF0, CHR 0x9F, CHR 0x94, CHR 0xA7],
      model_description = ''Stable production model'',
      model_icon = [CHR 0xF0, CHR 0x9F, CHR 0x94, CHR 0xA7]\<rparr>]"

definition DEFAULT_MODEL_ID :: string where
  "DEFAULT_MODEL_ID = ''gemini-2.0-flash-001''"

text \<open>The loops return at the first match and fall back to the first model.\<close>

definition get_model_by_id :: "string \<Rightarrow> model_info" where
  "get_model_by_id mid =
     (case find (\<lambda>m. model_id m = mid) AVAILABLE_MODELS of
        Some m \<Rightarrow> m
      | None \<Rightarrow> hd AVAILABLE_MODELS)"

definition get_model_id_by_label :: "string \<Rightarrow> string" where
  "get_model_id_by_label lbl =
     (case find (\<lambda>m. model_label m = lbl) AVAILABLE_MODELS of
        Some m \<Rightarrow> model_id m
      | None \<Rightarrow> DEFAULT_MODEL_ID)"

record data_source =
  src_id :: string
  src_label :: string
  src_icon :: string
  src_description :: string
  src_color :: string
  src_local :: bool

definition DATA_SOURCES :: "data_source list" where
  "DATA_SOURCES = [
     \<lparr>src_id = ''salesforce'', src_label = ''Salesforce'',
      src_icon = [CHR 0xE2, CHR 0x98, CHR 0x81, CHR 0xEF, CHR 0xB8, CHR 0x8F],
      src_description = ''CRM '' @ [CHR 0xE2, CHR 0x80, CHR 0x94] @ '' Leads, Opportunities, Accounts, Cases'',
      src_color = ''#00A1E0'', src_local = False\<rparr>,
     \<lparr>src_id = ''netsuite'', src_label = ''NetSuite'',
      src_icon = [CHR 0xF0, CHR 0x9F, CHR 0x93, CHR 0x8A],
      src_description = ''ERP '' @ [CHR 0xE2, CHR 0x80, CHR 0x94] @ '' Finance, GL, Accounts Payable/Receivable'',
      src_color = ''#1B3A5C'', src_local = False\<rparr>,
     \<lparr>src_id = ''coupa'', src_label = ''Coupa'',
      src_icon = [CHR 0xF0, CHR 0x9F, CHR 0x9B, CHR 0x92],
      src_description = ''Procurement '' @ [CHR 0xE2, CHR 0x80, CHR 0x94] @ '' Purchase Orders, Invoices, Suppliers'',
      src_color = ''#E74C3C'', src_local = False\<rparr>,
     \<lparr>src_id = ''workday'', src_label = ''Workday'',
      src_icon = [CHR 0xF0, CHR 0x9F, CHR 0x91, CHR 0xA5],
      src_description = ''HCM '' @ [CHR 0xE2, CHR 0x80, CHR 0x94] @ '' Employees, Payroll, Time Off, Headcount'',
      src_color = ''#F5A623'', src_local = False\<rparr>,
     \<lparr>src_id = ''jira'', src_label = ''JIRA'',
      src_icon = [CHR 0xF0, CHR 0x9F, CHR 0x8E, CHR 0xAF],
      src_description = ''Project Management '' @ [CHR 0xE2, CHR 0x80, CHR 0x94] @ '' Issues, Sprints, Backlogs'',
      src_color = ''#0052CC'', src_local = False\<rparr>,
     \<lparr>src_id = ''inhouse'', src_label = ''In-House Systems'',
      src_icon = [CHR 0xF0, CHR 0x9F, CHR 0x8F, CHR 0xA2],
      src_description = ''Custom '' @ [CHR 0xE2, CHR 0x80, CHR 0x94] @ '' Product Metrics, IoT, Internal KPIs'',
      src_color = ''#8B5CF6'', src_local = False\<rparr>,
     \<lparr>src_id = ''local_salesforce'', src_label = ''Local '' @ [CHR 0xC2, CHR 0xB7] @ '' Salesforce'',
      src_icon = [CHR 0xF0, CHR 0x9F, CHR 0x92, CHR 0xBE],
      src_description = ''Demo CRM data '' @ [CHR 0xE2, CHR 0x80, CHR 0x94] @ '' no GCP needed'',
      src_color = ''#6b7280'', src_local = True\<rparr>,
     \<lparr>src_id = ''local_netsuite'', src_label = ''Local '' @ [CHR 0xC2, CHR 0xB7] @ '' NetSuite'',
      src_icon = [CHR 0xF0, CHR 0x9F, CHR 0x92, CHR 0xBE],
      src_description = ''Demo ERP data '' @ [CHR 0xE2, CHR 0x80, CHR 0x94] @ '' no GCP needed'',
      src_color = ''#6b7280'', src_local = True\<rparr>,
     \<lparr>src_id = ''local_coupa'', src_label = ''Local '' @ [CHR 0xC2, CHR 0xB7] @ '' Coupa'',
      src_icon = [CHR 0xF0, CHR 0x9F, CHR 0x92, CHR 0xBE],
      src_description = ''Demo Procurement data '' @ [CHR 0xE2, CHR 0x80, CHR 0x94] @ '' no GCP needed'',
      src_color = ''#6b7280'', src_local = True\<rparr>,
     \<lparr>src_id = ''local_workday'', src_label = ''Local '' @ [CHR 0xC2, CHR 0xB7] @ '' Workday'',
      src_icon = [CHR 0xF0, CHR 0x9F, CHR 0x92, CHR 0xBE],
      src_description = ''Demo HCM data '' @ [CHR 0xE2, CHR 0x80, CHR 0x94] @ '' no GCP needed'',
      src_color = ''#6b7280'', src_local = True\<rparr>,
     \<lparr>src_id = ''local_jira'', src_label = ''Local '' @ [CHR 0xC2, CHR 0xB7] @ '' JIRA'',
      src_icon = [CHR 0xF0, CHR 0x9F, CHR 0x92, CHR 0xBE],
      src_description = ''Demo Project data '' @ [CHR 0xE2, CHR 0x80, CHR 0x94] @ '' no GCP needed'',
      src_color = ''#6b7280'', src_local = True\<rparr>,
     \<lparr>src_id = ''local_inhouse'', src_label = ''Local '' @ [CHR 0xC2, CHR 0xB7] @ '' In-House'',
      src_icon = [CHR 0xF0, CHR 0x9F, CHR 0x92, CHR 0xBE],
      src_description = ''Demo Internal KPI data '' @ [CHR 0xE2, CHR 0x80, CHR 0x94] @ '' no GCP needed'',
      src_color = ''#6b7280'', src_local = True\<rparr>]"

definition SOURCE_IDS :: "string list" where
  "SOURCE_IDS = map src_id DATA_SOURCES"

definition get_source_by_label :: "string \<Rightarrow> data_source" where
  "get_source_by_label lbl =
     (case find (\<lambda>s. src_icon s @ '' '' @ src_label s = lbl \<or> src_label s = lbl) DATA_SOURCES of
        Some s \<Rightarrow> s
      | None \<Rightarrow> hd DATA_SOURCES)"

text \<open>\<open>source.get("local", False)\<close>; every entry of the registry has the key.\<close>

definition is_local_source :: "data_source \<Rightarrow> bool" where
  "is_local_source source = src_local source"

text \<open>Documented as: strip the \<open>local_\<close> prefix to get the base source id. The body is
  \<open>source_id.replace("local_", "")\<close>.\<close>

definition get_bq_source_id :: "string \<Rightarrow> string" where
  "get_bq_source_id source_id = py_replace ''local_'' [] source_id"

section \<open>The query executor: \<^verbatim>\<open>backend/bq_client.py\<close>\<close>

definition MOCK_DATA :: "(string \<times> dataframe) list" where
  "MOCK_DATA = [
     (''salesforce'', \<lparr>index_len = 6, columns = [
          (''stage'', StrCol [''Prospecting'', ''Qualification'', ''Proposal'', ''Negotiation'', ''Closed Won'', ''Closed Lost'']),
          (''deal_count'', IntCol [45, 32, 28, 15, 22, 8]),
          (''total_value'', IntCol [890000, 1250000, 2100000, 1800000, 3200000, 450000]),
          (''avg_days_in_stage'', IntCol [12, 18, 25, 30, 5, 10])]\<rparr>),
     (''netsuite'', \<lparr>index_len = 6, columns = [
          (''department'', StrCol [''Marketing'', ''Operations'', ''HR'', ''IT'', ''Finance'', ''R&D'']),
          (''total_amount'', IntCol [150000, 320000, 95000, 210000, 130000, 280000]),
          (''transaction_count'', IntCol [45, 120, 30, 80, 55, 95]),
          (''budget_remaining'', IntCol [50000, 30000, 25000, 90000, 70000, 120000])]\<rparr>),
     (''coupa'', \<lparr>index_len = 6, columns = [
          (''supplier'', StrCol [''Acme Corp'', ''Global Parts'', ''TechVend'', ''Office Pro'', ''CloudServ'', ''DataFlow'']),
          (''po_count'', IntCol [28, 45, 15, 62, 20, 12]),
          (''total_spend'', IntCol [245000, 520000, 180000, 95000, 310000, 150000]),
          (''avg_delivery_days'', IntCol [5, 8, 3, 2, 1, 4])]\<rparr>),
     (''workday'', \<lparr>index_len = 6, columns = [
          (''department'', StrCol [''Engineering'', ''Sales'', ''Marketing'', ''Support'', ''HR'', ''Finance'']),
          (''headcount'', IntCol [120, 85, 45, 60, 15, 25]),
          (''avg_tenure_years'', FloatCol [(32, -1), (28, -1), (41, -1), (25, -1), (5, 0), (45, -1)]),
          (''attrition_rate'', FloatCol [(85, -1), (12, 0), (65, -1), (15, 0), (3, 0), (5, 0)])]\<rparr>),
     (''jira'', \<lparr>index_len = 6, columns = [
          (''project'', StrCol [''Platform'', ''Mobile App'', ''Data Pipeline'', ''DevOps'', ''Frontend'', ''Security'']),
          (''open_issues'', IntCol [45, 32, 18, 12, 55, 8]),
          (''completed_sprints'', IntCol [12, 10, 8, 15, 11, 6]),
          (''avg_velocity'', IntCol [28, 22, 35, 40, 25, 18])]\<rparr>),
     (''inhouse'', \<lparr>index_len = 6, columns = [
          (''metric_name'', StrCol [''API Latency'', ''Uptime %'', ''DAU'', ''Error Rate'', ''Throughput'', ''NPS Score'']),
          (''current_value'', FloatCol [(125, 0), (9995, -2), (45000, 0), (3, -1), (12000, 0), (72, 0)]),
          (''target_value'', FloatCol [(100, 0), (9999, -2), (50000, 0), (1, -1), (15000, 0), (80, 0)]),
          (''trend'', StrCol [[CHR 0xE2, CHR 0x86, CHR 0x93] @ '' Improving'', [CHR 0xE2, CHR 0x86, CHR 0x92] @ '' Stable'', [CHR 0xE2, CHR 0x86, CHR 0x91] @ '' Growing'', [CHR 0xE2, CHR 0x86, CHR 0x93] @ '' Improving'', [CHR 0xE2, CHR 0x86, CHR 0x91] @ '' Growing'', [CHR 0xE2, CHR 0x86, CHR 0x91] @ '' Growing''])]\<rparr>)]"

text \<open>\<open>MOCK_DATA.get(base_source_id, MOCK_DATA["salesforce"])\<close>.\<close>

definition get_mock_df :: "string \<Rightarrow> dataframe" where
  "get_mock_df base_source_id =
     (case map_of MOCK_DATA base_source_id of
        Some df \<Rightarrow> df
      | None \<Rightarrow> the (map_of MOCK_DATA ''salesforce''))"

definition missing_bigquery_message :: string where
  "missing_bigquery_message =
     ''google-cloud-bigquery not installed. Run: pip install google-cloud-bigquery''"

text \<open>
  \<open>execute_sql(sql, source_id, question, is_local)\<close>. The live branch runs the BigQuery
  client inside \<open>try\<close>; the client is outside the repository, so what it did in this run
  is the argument \<open>bigquery\<close>: the exception raised anywhere between the import and
  \<open>to_dataframe()\<close>, or the table \<open>to_dataframe()\<close> returned. The result is the pair
  (table, error), with \<open>None\<close> as the error on success.
\<close>

definition execute_sql ::
  "(pyexc + dataframe) \<Rightarrow> pyval \<Rightarrow> string \<Rightarrow> string \<Rightarrow> bool \<Rightarrow> dataframe \<times> string option" where
  "execute_sql bigquery sql source_id question is_local =
     (let base_id = py_replace ''local_'' [] source_id in
      if is_local then (get_mock_df base_id, None)
      else (case bigquery of
              Inr df \<Rightarrow> (df, None)
            | Inl e \<Rightarrow>
                if isinstance_ImportError e then (empty_DataFrame, Some missing_bigquery_message)
                else (empty_DataFrame, Some (str_exc e))))"

section \<open>The plan generator: \<^verbatim>\<open>backend/agent.py\<close>\<close>

definition LOCAL_RESPONSES :: "(string \<times> pyval) list" where
  "LOCAL_RESPONSES = [
     (''salesforce'', PDict [
        (''sql'', PStr (''SELECT stage, COUNT('' @ [CHR 0x2A] @ '') AS deal_count, SUM(amount) AS total_value'' @ [CHR 0x0A] @ ''FROM `erp_poc.sf_opportunities`'' @ [CHR 0x0A] @ ''GROUP BY stage ORDER BY total_value DESC'')),
        (''explanation'', PStr (''I analysed the Salesforce opportunity pipeline. **Closed Won** leads at $3.2M across 22 deals, while **Proposal** stage has $2.1M indicating a strong pipeline. The **Closed Lost** rate is relatively low, suggesting effective qualification.'')),
        (''chart_type'', PStr (''bar'')),
        (''x_col'', PStr (''stage'')),
        (''y_col'', PStr (''total_value'')),
        (''followups'', PList [PStr (''What is the average deal size by region?''),
           PStr (''Show win rate trend over last 6 months''),
           PStr (''Which sales rep has the highest close rate?'')])]),
     (''netsuite'', PDict [
        (''sql'', PStr (''SELECT department, SUM(amount) AS total_amount, COUNT('' @ [CHR 0x2A] @ '') AS transaction_count'' @ [CHR 0x0A] @ ''FROM `erp_poc.ns_gl_transactions`'' @ [CHR 0x0A] @ ''GROUP BY department ORDER BY total_amount DESC'')),
        (''explanation'', PStr (''NetSuite GL analysis shows **Operations** has the highest spend at $320K with 120 transactions. **R&D** is second at $280K. All departments have budget remaining, with **R&D** having the most runway ($120K).'')),
        (''chart_type'', PStr (''bar'')),
        (''x_col'', PStr (''department'')),
        (''y_col'', PStr (''total_amount'')),
        (''followups'', PList [PStr (''Show accounts payable aging report''),
           PStr (''Which vendors have overdue invoices?''),
           PStr (''Monthly revenue vs expense trend'')])]),
     (''coupa'', PDict [
        (''sql'', PStr (''SELECT supplier, po_count, total_spend'' @ [CHR 0x0A] @ ''FROM `erp_poc.coupa_purchase_orders`'' @ [CHR 0x0A] @ ''GROUP BY supplier ORDER BY total_spend DESC'')),
        (''explanation'', PStr (''Coupa procurement analysis: **Global Parts** is the top supplier at $520K across 45 POs. **CloudServ** follows at $310K. Average delivery ranges from 1-8 days, with **CloudServ** (cloud services) being fastest at 1 day.'')),
        (''chart_type'', PStr (''bar'')),
        (''x_col'', PStr (''supplier'')),
        (''y_col'', PStr (''total_spend'')),
        (''followups'', PList [PStr (''Which suppliers have the fastest delivery times?''),
           PStr (''Show procurement spend by category''),
           PStr (''List POs pending approval over $50K'')])]),
     (''workday'', PDict [
        (''sql'', PStr (''SELECT department, headcount, attrition_rate, avg_tenure_years'' @ [CHR 0x0A] @ ''FROM `erp_poc.wd_employees`'' @ [CHR 0x0A] @ ''GROUP BY department'')),
        (''explanation'', PStr (''Workday headcount analysis: **Engineering** is the largest team (120 people). **Support** has the highest attrition at 15%, while **HR** has the lowest at 3%. Average tenure ranges from 2.5 to 5.0 years.'')),
        (''chart_type'', PStr (''bar'')),
        (''x_col'', PStr (''department'')),
        (''y_col'', PStr (''headcount'')),
        (''followups'', PList [PStr (''Which departments need to hire most urgently?''),
           PStr (''Show payroll cost breakdown by department''),
           PStr (''What is the time-off utilization rate?'')])]),
     (''jira'', PDict [
        (''sql'', PStr (''SELECT project, open_issues, completed_sprints, avg_velocity'' @ [CHR 0x0A] @ ''FROM `erp_poc.jira_sprints`'' @ [CHR 0x0A] @ ''GROUP BY project'')),
        (''explanation'', PStr (''JIRA project overview: **Frontend** has the most open issues (55) but strong velocity. **DevOps** leads in sprint completion (15 sprints) with the highest velocity (40 pts). **Security** has the fewest open issues '' @ [CHR 0xE2, CHR 0x80, CHR 0x94] @ '' good sign.'')),
        (''chart_type'', PStr (''bar'')),
        (''x_col'', PStr (''project'')),
        (''y_col'', PStr (''open_issues'')),
        (''followups'', PList [PStr (''Which projects are behind schedule?''),
           PStr (''Show sprint velocity trend for Platform team''),
           PStr (''List critical/blocker issues across all projects'')])]),
     (''inhouse'', PDict [
        (''sql'', PStr (''SELECT metric_name, current_value, target_value'' @ [CHR 0x0A] @ ''FROM `erp_poc.app_kpi_dashboard`'' @ [CHR 0x0A] @ ''ORDER BY metric_name'')),
        (''explanation'', PStr (''Internal KPI dashboard: **Uptime** is at 99.95% (target: 99.99%). **DAU** is 45K and trending up toward the 50K goal. **Error Rate** has improved to 0.3% from the 0.1% target. **NPS Score** is 72, showing good user satisfaction.'')),
        (''chart_type'', PStr (''bar'')),
        (''x_col'', PStr (''metric_name'')),
        (''y_col'', PStr (''current_value'')),
        (''followups'', PList [PStr (''Show API latency trend over last 30 days''),
           PStr (''Which endpoints have the highest error rate?''),
           PStr (''Compare current metrics vs last quarter'')])])]"

text \<open>The dictionary built in the \<open>except Exception as e\<close> branch. Its explanation
  opens with a warning sign (U+26A0, U+FE0F) and \<open>Vertex AI error:\<close>.\<close>

definition vertex_error_prefix :: string where
  "vertex_error_prefix =
     [CHR 0xE2, CHR 0x9A, CHR 0xA0, CHR 0xEF, CHR 0xB8, CHR 0x8F] @ '' Vertex AI error: ''"

definition error_plan :: "pyexc \<Rightarrow> pyval" where
  "error_plan e = PDict [
     (''sql'', PStr ''-- Error generating SQL''),
     (''explanation'', PStr (vertex_error_prefix @ str_exc e)),
     (''chart_type'', PStr ''bar''),
     (''x_col'', PStr []),
     (''y_col'', PStr []),
     (''followups'', PList []),
     (''error'', PStr (str_exc e))]"

text \<open>
  The three lines before \<open>json.loads\<close>: \<open>raw = response.text.strip()\<close>, then
  \<open>re.sub(r"^```(?:json)?\s*", "", raw)\<close>, then \<open>re.sub(r"\s*```$", "", raw)\<close>.
  Without the MULTILINE flag \<open>^\<close> matches at the start only; \<open>$\<close> matches at the end
  and before a line feed that ends the string, and that line feed stays.
\<close>

definition code_fence :: string where
  "code_fence = ''```''"

definition sub_opening_fence :: "string \<Rightarrow> string" where
  "sub_opening_fence raw =
     (if prefix code_fence raw
      then (let r = drop 3 raw;
                r' = (if prefix ''json'' r then drop 4 r else r)
            in concat (lstrip_chars (py_chars r')))
      else raw)"

definition sub_closing_fence :: "string \<Rightarrow> string" where
  "sub_closing_fence raw =
     (if suffix code_fence raw
      then concat (rstrip_chars (py_chars (take (length raw - 3) raw)))
      else if suffix (code_fence @ [CHR 0x0A]) raw
      then concat (rstrip_chars (py_chars (take (length raw - 4) raw))) @ [CHR 0x0A]
      else raw)"

definition clean_response :: "string \<Rightarrow> string" where
  "clean_response response_text = sub_closing_fence (sub_opening_fence (py_strip response_text))"

text \<open>
  \<open>_call_vertex_ai(question, model_id, base_source_id)\<close>. Vertex AI and \<open>json\<close> are
  outside the repository: \<open>vertex\<close> is what the steps from \<open>import vertexai\<close> to
  \<open>response.text\<close> did in this run (the exception raised, or the text), and
  \<open>json_loads\<close> is the parser (the exception it raises, or the value it returns).
  Both stand inside \<open>try\<close>; the function returns a value on every path.
\<close>

definition call_vertex_ai ::
  "(string \<Rightarrow> pyexc + pyval) \<Rightarrow> (pyexc + string) \<Rightarrow> string \<Rightarrow> string \<Rightarrow> string \<Rightarrow> pyval" where
  "call_vertex_ai json_loads vertex question mid base_source_id =
     (case vertex of
        Inl e \<Rightarrow> error_plan e
      | Inr response_text \<Rightarrow>
          (case json_loads (clean_response response_text) of
             Inl e \<Rightarrow> error_plan e
           | Inr plan \<Rightarrow> plan))"

text \<open>\<open>run_agent(question, model_id, source_id, is_local)\<close>; the local branch is
  \<open>LOCAL_RESPONSES.get(base_id, LOCAL_RESPONSES["salesforce"]).copy()\<close>.\<close>

definition run_agent ::
  "(string \<Rightarrow> pyexc + pyval) \<Rightarrow> (pyexc + string) \<Rightarrow> string \<Rightarrow> string \<Rightarrow> string \<Rightarrow> bool \<Rightarrow> pyval" where
  "run_agent json_loads vertex question mid source_id is_local =
     (let base_id = py_replace ''local_'' [] source_id in
      if is_local
      then (case map_of LOCAL_RESPONSES base_id of
              Some plan \<Rightarrow> plan
            | None \<Rightarrow> the (map_of LOCAL_RESPONSES ''salesforce''))
      else call_vertex_ai json_loads vertex question mid base_id)"

section \<open>The page and the orchestrator: \<^verbatim>\<open>app.py\<close>\<close>

subsection \<open>Charts\<close>

datatype chart_kind = PieChart | LineChart | BarChart

text \<open>What is asked of plotly: \<open>px.pie(df, names=x, values=y)\<close>, \<open>px.line(df, x=x, y=y)\<close>
  or \<open>px.bar(df, x=x, y=y)\<close>.\<close>

record px_call =
  px_kind :: chart_kind
  px_x :: string
  px_y :: string

text \<open>\<open>v in cols\<close> for a list of column names: only a \<open>str\<close> equals a name.\<close>

fun in_cols :: "pyval \<Rightarrow> string list \<Rightarrow> bool" where
  "in_cols (PStr s) cols = (s \<in> set cols)"
| "in_cols _ cols = False"

fun str_of :: "pyval \<Rightarrow> string" where
  "str_of (PStr s) = s"
| "str_of _ = []"

text \<open>
  The axis fallback, written the same way in \<open>build_chart\<close> (app.py) and in
  \<open>_build_chart_html\<close> (\<^verbatim>\<open>report_generator.py\<close>). Both run it behind the guard
  \<open>df is None or df.empty\<close>, so \<open>cols[0]\<close> and \<open>cols[-1]\<close> exist where it runs.
\<close>

definition chart_axes :: "dataframe \<Rightarrow> pyval \<Rightarrow> pyval \<Rightarrow> string \<times> string" where
  "chart_axes df x_col y_col =
     (let cols = columns_tolist df;
          x = (if \<not> in_cols x_col cols then hd cols else str_of x_col);
          y = (if \<not> in_cols y_col cols \<or> y_col = PStr x
               then (let nc = select_dtypes_number df in if nc \<noteq> [] then hd nc else last cols)
               else str_of y_col)
      in (x, y))"

definition chart_kind_of :: "pyval \<Rightarrow> chart_kind" where
  "chart_kind_of chart_type =
     (if chart_type = PStr ''pie'' then PieChart
      else if chart_type = PStr ''line'' then LineChart
      else BarChart)"

text \<open>
  \<open>build_chart(df, chart_type, x_col, y_col)\<close>. Plotly is outside the repository: the
  argument \<open>plotly\<close> is what the \<open>px\<close> call on the table, followed by \<open>update_traces\<close>
  and \<open>update_layout\<close>, does: it raises (on a duplicated column name, for one) or
  returns the figure. \<open>build_chart\<close> catches nothing, and returns \<open>None\<close> when there is
  no table or an empty one.
\<close>

definition build_chart ::
  "(dataframe \<Rightarrow> px_call \<Rightarrow> pyexc + 'fig) \<Rightarrow> dataframe option \<Rightarrow> pyval \<Rightarrow> pyval \<Rightarrow> pyval
     \<Rightarrow> pyexc + 'fig option" where
  "build_chart plotly df chart_type x_col y_col =
     (case df of
        None \<Rightarrow> Inr None
      | Some d \<Rightarrow>
          if df_empty d then Inr None
          else (case plotly d \<lparr>px_kind = chart_kind_of chart_type,
                                  px_x = fst (chart_axes d x_col y_col),
                                  px_y = snd (chart_axes d x_col y_col)\<rparr> of
                  Inl e \<Rightarrow> Inl e
                | Inr fig \<Rightarrow> Inr (Some fig)))"

text \<open>The chart step of the page: \<open>ct = result.get("chart_type", "bar")\<close>, likewise
  \<open>xc\<close> and \<open>yc\<close>, then \<open>build_chart(df, ct, xc, yc)\<close> when there is a non-empty table.\<close>

definition page_chart ::
  "(dataframe \<Rightarrow> px_call \<Rightarrow> pyexc + 'fig) \<Rightarrow> (string \<times> pyval) list \<Rightarrow> dataframe option
     \<Rightarrow> pyexc + 'fig option" where
  "page_chart plotly result df =
     (let ct = dict_get result ''chart_type'' (PStr ''bar'');
          xc = dict_get result ''x_col'' (PStr []);
          yc = dict_get result ''y_col'' (PStr [])
      in case df of
           None \<Rightarrow> Inr None
         | Some d \<Rightarrow> if df_empty d then Inr None else build_chart plotly df ct xc yc)"

text \<open>\<open>_build_chart_html\<close> of \<^verbatim>\<open>report_generator.py\<close>: the empty string behind the guard,
  else the same plotly call and then the figure's \<open>to_html\<close>, which may raise as well.\<close>

definition build_chart_html ::
  "(dataframe \<Rightarrow> px_call \<Rightarrow> pyexc + 'fig) \<Rightarrow> ('fig \<Rightarrow> pyexc + string) \<Rightarrow> dataframe option
     \<Rightarrow> pyval \<Rightarrow> pyval \<Rightarrow> pyval \<Rightarrow> pyexc + string" where
  "build_chart_html plotly to_html df chart_type x_col y_col =
     (case df of
        None \<Rightarrow> Inr []
      | Some d \<Rightarrow>
          if df_empty d then Inr []
          else (case plotly d \<lparr>px_kind = chart_kind_of chart_type,
                                  px_x = fst (chart_axes d x_col y_col),
                                  px_y = snd (chart_axes d x_col y_col)\<rparr> of
                  Inl e \<Rightarrow> Inl e
                | Inr fig \<Rightarrow> to_html fig))"

subsection \<open>KPIs\<close>





























subsection \<open>The orchestrator\<close>

record message =
  msg_role :: string
  msg_content :: pyval
  msg_model :: "string option"

text \<open>\<open>st.session_state\<close>: the conversation log and the slots of the current result.\<close>

record session_state =
  messages :: "message list"
  last_df :: "dataframe option"
  last_result :: "pyval option"
  selected_followup :: "string option"
  pending_followup :: "string option"
  email_status :: "(bool \<times> string) option"

text \<open>What the services outside the repository do during one call of \<open>run_query\<close>.\<close>

record backends =
  json_loads :: "string \<Rightarrow> pyexc + pyval"
  vertex :: "pyexc + string"
  bigquery :: "pyexc + dataframe"

text \<open>The start of the warning \<open>f"\n\n... Query error: {err}"\<close>: two line feeds, the
  warning sign, and \<open>Query error:\<close>.\<close>

definition query_error_prefix :: string where
  "query_error_prefix =
     [CHR 0x0A, CHR 0x0A, CHR 0xE2, CHR 0x9A, CHR 0xA0, CHR 0xEF, CHR 0xB8, CHR 0x8F] @ '' Query error: ''"

text \<open>\<open>content += warning\<close>: a \<open>str\<close> is concatenated; a \<open>list\<close> is extended in place by
  the characters of the warning; every other type raises TypeError.\<close>

definition iadd_str :: "pyval \<Rightarrow> string \<Rightarrow> pyexc + pyval" where
  "iadd_str v w =
     (case v of
        PStr s \<Rightarrow> Inr (PStr (s @ w))
      | PList l \<Rightarrow> Inr (PList (l @ map PStr (py_chars w)))
      | _ \<Rightarrow> Inl (PyExc False (''unsupported operand type(s) for +=: '' @ [CHR 0x27] @ type_name v
                               @ [CHR 0x27] @ '' and '' @ [CHR 0x27] @ ''str'' @ [CHR 0x27])))"

text \<open>
  \<open>run_query(question, model_id, source)\<close> on the session state. The result is the
  state afterwards and the exception that left the function, if one did.
  \<open>result.get\<close> raises AttributeError when the plan is no dictionary, before anything is
  stored. A list held under \<open>explanation\<close> is the same object in the log entry and in
  \<open>last_result\<close>, so extending it shows in both.
\<close>

definition run_query ::
  "backends \<Rightarrow> session_state \<Rightarrow> string \<Rightarrow> string \<Rightarrow> data_source \<Rightarrow> session_state \<times> pyexc option" where
  "run_query ext st question mid source =
     (let local = is_local_source source;
          sid = src_id source;
          result = run_agent (json_loads ext) (vertex ext) question mid sid local
      in case result of
           PDict d \<Rightarrow>
             (let (df, err) = execute_sql (bigquery ext) (dict_get d ''sql'' (PStr [])) sid question local;
                  user_msg = \<lparr>msg_role = ''user'', msg_content = PStr question, msg_model = None\<rparr>;
                  ai_msg = \<lparr>msg_role = ''ai'', msg_content = dict_get d ''explanation'' (PStr []),
                            msg_model = Some (if local then ''Local Demo''
                                              else model_label (get_model_by_id mid))\<rparr>;
                  st' = st\<lparr>messages := messages st @ [user_msg, ai_msg],
                           last_result := Some result,
                           last_df := (if err = None then Some df else None)\<rparr>
              in case err of
                   None \<Rightarrow> (st', None)
                 | Some e \<Rightarrow>
                     if e = [] then (st', None)
                     else (case iadd_str (msg_content ai_msg) (query_error_prefix @ e) of
                             Inl exc \<Rightarrow> (st', Some exc)
                           | Inr content' \<Rightarrow>
                               (st'\<lparr>messages := messages st @ [user_msg, ai_msg\<lparr>msg_content := content'\<rparr>],
                                    last_result :=
                                      Some (case content' of
                                              PList _ \<Rightarrow> PDict (dict_set d ''explanation'' content')
                                            | _ \<Rightarrow> result)\<rparr>, None)))
         | _ \<Rightarrow> (st, Some (PyExc False ([CHR 0x27] @ type_name result @ [CHR 0x27]
                                          @ '' object has no attribute '' @ [CHR 0x27] @ ''get'' @ [CHR 0x27]))))"

subsection \<open>An example run of the live path\<close>

text \<open>
  The examples below need one concrete run of the services outside the repository. The
  generative backend answers with the text
  \<^verbatim>\<open>{"sql": "SELECT 1", "explanation": "One row.", "chart_type": "scatter"}\<close>,
  a well-formed JSON object, and \<open>json.loads\<close> maps that text to the dictionary
  \<open>example_plan\<close>. No example gives the parser another text; \<open>example_loads\<close> answers
  any with a decoding error.
\<close>

definition example_reply :: string where
  "example_reply =
     ''{'' @ [CHR 0x22] @ ''sql'' @ [CHR 0x22] @ '': '' @ [CHR 0x22] @ ''SELECT 1'' @ [CHR 0x22] @ '', ''
      @ [CHR 0x22] @ ''explanation'' @ [CHR 0x22] @ '': '' @ [CHR 0x22] @ ''One row.'' @ [CHR 0x22] @ '', ''
      @ [CHR 0x22] @ ''chart_type'' @ [CHR 0x22] @ '': '' @ [CHR 0x22] @ ''scatter'' @ [CHR 0x22] @ ''}''"

definition example_plan :: pyval where
  "example_plan = PDict [
     (''sql'', PStr ''SELECT 1''),
     (''explanation'', PStr ''One row.''),
     (''chart_type'', PStr ''scatter'')]"

definition example_loads :: "string \<Rightarrow> pyexc + pyval" where
  "example_loads raw =
     (if raw = example_reply then Inr example_plan else Inl (PyExc False ''Expecting value''))"

section \<open>Properties\<close>

subsection \<open>The prefix transform\<close>

lemma SOURCE_IDS_eq:
  "SOURCE_IDS = [''salesforce'', ''netsuite'', ''coupa'', ''workday'', ''jira'', ''inhouse'',
     ''local_salesforce'', ''local_netsuite'', ''local_coupa'', ''local_workday'',
     ''local_jira'', ''local_inhouse'']"
  by (simp add: SOURCE_IDS_def DATA_SOURCES_def)

text \<open>On the twelve identifiers of the registry the transform removes the prefix, and a
  second application changes nothing.\<close>

lemma get_bq_source_id_registry:
  "map get_bq_source_id SOURCE_IDS =
     [''salesforce'', ''netsuite'', ''coupa'', ''workday'', ''jira'', ''inhouse'',
      ''salesforce'', ''netsuite'', ''coupa'', ''workday'', ''jira'', ''inhouse'']"
  unfolding SOURCE_IDS_eq by (simp add: get_bq_source_id_def py_replace_def)

lemma get_bq_source_id_registry_idem:
  "list_all (\<lambda>s. get_bq_source_id (get_bq_source_id s) = get_bq_source_id s) SOURCE_IDS"
  unfolding SOURCE_IDS_eq by (simp add: get_bq_source_id_def py_replace_def)

text \<open>What does hold of \<open>replace\<close>: a string without an occurrence of the pattern is
  unchanged, and removing the pattern shortens a string that has one. So a second
  application changes nothing exactly when the first result has no occurrence left.\<close>

lemma replace_from_no_occurrence:
  "\<not> sublist old s \<Longrightarrow> replace_from old new s = s"
proof (induction s)
  case Nil
  then show ?case by simp
next
  case (Cons c cs)
  then have "\<not> prefix old (c # cs)" and "\<not> sublist old cs"
    by (auto simp: sublist_Cons_right)
  with Cons.IH show ?case by simp
qed

lemma length_replace_from_le: "length (replace_from old [] s) \<le> length s"
  by (induction old "[] :: string" s rule: replace_from.induct) auto

lemma length_replace_from_less:
  "old \<noteq> [] \<Longrightarrow> sublist old s \<Longrightarrow> length (replace_from old [] s) < length s"
proof (induction s)
  case Nil
  then show ?case by simp
next
  case (Cons c cs)
  show ?case
  proof (cases "prefix old (c # cs)")
    case True
    have "length (replace_from old [] (drop (length old) (c # cs)))
            \<le> length (drop (length old) (c # cs))"
      by (rule length_replace_from_le)
    also have "\<dots> < length (c # cs)"
      using Cons.prems(1) by simp
    finally show ?thesis
      using True Cons.prems(1) by simp
  next
    case False
    with Cons.prems have "sublist old cs"
      by (simp add: sublist_Cons_right)
    with Cons.IH Cons.prems(1) False show ?thesis by simp
  qed
qed

lemma get_bq_source_id_no_occurrence:
  "\<not> sublist ''local_'' s \<Longrightarrow> get_bq_source_id s = s"
  by (simp add: get_bq_source_id_def py_replace_def replace_from_no_occurrence)

lemma get_bq_source_id_prefixed:
  "\<not> sublist ''local_'' base \<Longrightarrow> get_bq_source_id (''local_'' @ base) = base"
  by (simp add: get_bq_source_id_def py_replace_def replace_from_no_occurrence)

lemma get_bq_source_id_idem_iff:
  "get_bq_source_id (get_bq_source_id s) = get_bq_source_id s
     \<longleftrightarrow> \<not> sublist ''local_'' (get_bq_source_id s)"
proof
  assume eq: "get_bq_source_id (get_bq_source_id s) = get_bq_source_id s"
  show "\<not> sublist ''local_'' (get_bq_source_id s)"
  proof
    assume "sublist ''local_'' (get_bq_source_id s)"
    then have "length (get_bq_source_id (get_bq_source_id s)) < length (get_bq_source_id s)"
      using length_replace_from_less[of "''local_''" "get_bq_source_id s"]
      by (simp add: get_bq_source_id_def py_replace_def)
    with eq show False by simp
  qed
next
  assume "\<not> sublist ''local_'' (get_bq_source_id s)"
  then show "get_bq_source_id (get_bq_source_id s) = get_bq_source_id s"
    using replace_from_no_occurrence[of "''local_''" "get_bq_source_id s" "[]"]
    by (simp add: get_bq_source_id_def py_replace_def)
qed

text \<open>
  C5. The claim: the prefix-stripping transform is idempotent for every identifier
  string, and leaves an identifier without the offline prefix unchanged. The function is
  documented as stripping the prefix, but its body removes every occurrence of
  \<open>local_\<close>, wherever it stands. On \<open>llocal_ocal_\<close>, which has no prefix, the first
  application returns \<open>local_\<close> and the second returns the empty string; on
  \<open>my_local_db\<close>, which has no prefix either, it returns \<open>my_db\<close>.
\<close>

theorem get_bq_source_id_not_idempotent:
  "get_bq_source_id ''llocal_ocal_'' = ''local_''
   \<and> get_bq_source_id (get_bq_source_id ''llocal_ocal_'') = []
   \<and> get_bq_source_id (get_bq_source_id ''llocal_ocal_'') \<noteq> get_bq_source_id ''llocal_ocal_''
   \<and> get_bq_source_id ''my_local_db'' = ''my_db''"
  by (simp add: get_bq_source_id_def py_replace_def)

subsection \<open>The query executor\<close>

text \<open>
  C2. For every pair (table, error) that \<open>execute_sql\<close> returns, in either mode, an error
  other than \<open>None\<close> comes with the empty table \<open>pd.DataFrame()\<close>. The converse does not
  hold: a live query may return the empty table with no error.
\<close>

theorem execute_sql_error_implies_empty:
  "(snd (execute_sql bq sql source_id question is_local) \<noteq> None
      \<longrightarrow> fst (execute_sql bq sql source_id question is_local) = empty_DataFrame)
   \<and> execute_sql (Inr empty_DataFrame) sql source_id question False = (empty_DataFrame, None)"
  by (auto simp: execute_sql_def Let_def split: sum.splits if_splits)

theorem execute_sql_error_implies_empty_witness:
  "snd (execute_sql (Inl (PyExc False ''403 Access Denied'')) (PStr ''SELECT 1'') ''salesforce''
          ''how many?'' False) = Some ''403 Access Denied''
   \<and> fst (execute_sql (Inl (PyExc False ''403 Access Denied'')) (PStr ''SELECT 1'') ''salesforce''
          ''how many?'' False) = empty_DataFrame"
  using execute_sql_error_implies_empty
    [of "Inl (PyExc False ''403 Access Denied'')" "PStr ''SELECT 1''" "''salesforce''"
        "''how many?''" False]
  by (simp add: execute_sql_def)

text \<open>
  C9. When live execution is requested and the BigQuery client library cannot be
  imported, \<open>execute_sql\<close> returns the empty table with a message of its own, whatever
  the text of the ImportError: it names the missing package, google-cloud-bigquery, and
  the remedy, the pip install command. Every other exception is reported by its own text.
\<close>

theorem execute_sql_missing_client:
  "execute_sql (Inl (PyExc True msg)) sql source_id question False =
     (empty_DataFrame,
      Some ''google-cloud-bigquery not installed. Run: pip install google-cloud-bigquery'')
   \<and> sublist ''google-cloud-bigquery'' missing_bigquery_message
   \<and> sublist ''pip install google-cloud-bigquery'' missing_bigquery_message
   \<and> execute_sql (Inl (PyExc False msg)) sql source_id question False = (empty_DataFrame, Some msg)"
proof -
  have "sublist ''google-cloud-bigquery'' missing_bigquery_message"
    unfolding missing_bigquery_message_def sublist_def
    by (rule exI[of _ "[]"], rule exI[of _ "'' not installed. Run: pip install google-cloud-bigquery''"])
       simp
  moreover have "sublist ''pip install google-cloud-bigquery'' missing_bigquery_message"
    unfolding missing_bigquery_message_def sublist_def
    by (rule exI[of _ "''google-cloud-bigquery not installed. Run: ''"], rule exI[of _ "[]"]) simp
  ultimately show ?thesis
    by (simp add: execute_sql_def missing_bigquery_message_def)
qed

text \<open>The registry's offline identifiers, and the keys of both fixture tables.\<close>

lemma local_source_ids:
  "map src_id (filter is_local_source DATA_SOURCES) =
     [''local_salesforce'', ''local_netsuite'', ''local_coupa'', ''local_workday'',
      ''local_jira'', ''local_inhouse'']"
  by (simp add: DATA_SOURCES_def is_local_source_def)

lemma LOCAL_RESPONSES_keys:
  "map fst LOCAL_RESPONSES =
     [''salesforce'', ''netsuite'', ''coupa'', ''workday'', ''jira'', ''inhouse'']"
  by (simp add: LOCAL_RESPONSES_def)

lemma MOCK_DATA_keys:
  "map fst MOCK_DATA = [''salesforce'', ''netsuite'', ''coupa'', ''workday'', ''jira'', ''inhouse'']"
  by (simp add: MOCK_DATA_def)

lemma local_source_base:
  assumes "sid \<in> set (map src_id (filter is_local_source DATA_SOURCES))"
  shows "\<exists>base. sid = ''local_'' @ base \<and> py_replace ''local_'' [] sid = base
           \<and> base \<in> set [''salesforce'', ''netsuite'', ''coupa'', ''workday'', ''jira'', ''inhouse'']"
  using assms unfolding local_source_ids by (auto simp: py_replace_def)

lemma map_of_key_Some: "k \<in> set (map fst xs) \<Longrightarrow> \<exists>v. map_of xs k = Some v"
  by (cases "map_of xs k") (auto simp: map_of_eq_None_iff)

lemma MOCK_DATA_nonempty: "list_all (\<lambda>(k, df). \<not> df_empty df) MOCK_DATA"
  by (simp add: MOCK_DATA_def df_empty_def)

lemma MOCK_DATA_entry_nonempty:
  assumes "map_of MOCK_DATA k = Some df"
  shows "\<not> df_empty df"
proof -
  from assms have "(k, df) \<in> set MOCK_DATA" by (rule map_of_SomeD)
  with MOCK_DATA_nonempty show ?thesis unfolding list_all_iff by fast
qed

lemma MOCK_DATA_salesforce: "\<exists>df. map_of MOCK_DATA ''salesforce'' = Some df"
  by (rule map_of_key_Some) (simp add: MOCK_DATA_keys)

lemma get_mock_df_cases:
  "(\<exists>df. map_of MOCK_DATA k = Some df \<and> get_mock_df k = df)
   \<or> (map_of MOCK_DATA k = None \<and> map_of MOCK_DATA ''salesforce'' = Some (get_mock_df k))"
  using MOCK_DATA_salesforce by (cases "map_of MOCK_DATA k") (auto simp: get_mock_df_def)

lemma get_mock_df_nonempty: "\<not> df_empty (get_mock_df k)"
  using get_mock_df_cases[of k] MOCK_DATA_entry_nonempty by metis

lemma execute_sql_local_eq:
  "execute_sql bq sql sid q True = (get_mock_df (py_replace ''local_'' [] sid), None)"
  by (simp add: execute_sql_def)

text \<open>
  C4. For every source identifier and all \<open>sql\<close> and \<open>question\<close> arguments, \<open>execute_sql\<close>
  with \<open>is_local\<close> true returns the fixture registered for the base identifier, the
  salesforce fixture when the base identifier has none, with \<open>None\<close> as the error. The
  table is not empty, and the result does not depend on \<open>sql\<close>, on \<open>question\<close> or on the
  BigQuery service. For the six offline identifiers of the registry the base identifier
  is the identifier without its prefix.
\<close>

theorem execute_sql_local_fixture:
  "snd (execute_sql bq sql sid q True) = None
   \<and> \<not> df_empty (fst (execute_sql bq sql sid q True))
   \<and> (\<forall>df. map_of MOCK_DATA (py_replace ''local_'' [] sid) = Some df \<longrightarrow>
          fst (execute_sql bq sql sid q True) = df)
   \<and> (map_of MOCK_DATA (py_replace ''local_'' [] sid) = None \<longrightarrow>
          map_of MOCK_DATA ''salesforce'' = Some (fst (execute_sql bq sql sid q True)))
   \<and> (sid \<in> set (map src_id (filter is_local_source DATA_SOURCES)) \<longrightarrow>
          (\<exists>base. sid = ''local_'' @ base
             \<and> map_of MOCK_DATA base = Some (fst (execute_sql bq sql sid q True))))
   \<and> execute_sql bq sql sid q True = execute_sql bq' sql' sid q' True"
proof (intro conjI allI impI)
  show "snd (execute_sql bq sql sid q True) = None"
    by (simp add: execute_sql_local_eq)
  show "\<not> df_empty (fst (execute_sql bq sql sid q True))"
    by (simp add: execute_sql_local_eq get_mock_df_nonempty)
  show "execute_sql bq sql sid q True = execute_sql bq' sql' sid q' True"
    by (simp add: execute_sql_local_eq)
next
  fix df assume "map_of MOCK_DATA (py_replace ''local_'' [] sid) = Some df"
  then show "fst (execute_sql bq sql sid q True) = df"
    by (simp add: execute_sql_local_eq get_mock_df_def)
next
  assume "map_of MOCK_DATA (py_replace ''local_'' [] sid) = None"
  then show "map_of MOCK_DATA ''salesforce'' = Some (fst (execute_sql bq sql sid q True))"
    using get_mock_df_cases[of "py_replace ''local_'' [] sid"]
    by (auto simp: execute_sql_local_eq)
next
  assume "sid \<in> set (map src_id (filter is_local_source DATA_SOURCES))"
  then obtain base where b: "sid = ''local_'' @ base" "py_replace ''local_'' [] sid = base"
    "base \<in> set [''salesforce'', ''netsuite'', ''coupa'', ''workday'', ''jira'', ''inhouse'']"
    using local_source_base by blast
  from b(3) obtain df where df: "map_of MOCK_DATA base = Some df"
    using map_of_key_Some[of base MOCK_DATA] unfolding MOCK_DATA_keys by blast
  then have "fst (execute_sql bq sql sid q True) = df"
    by (simp add: execute_sql_local_eq b(2) get_mock_df_def)
  with b(1) df show "\<exists>base. sid = ''local_'' @ base
             \<and> map_of MOCK_DATA base = Some (fst (execute_sql bq sql sid q True))"
    by blast
qed

theorem execute_sql_local_fixture_witness:
  "''local_workday'' \<in> set (map src_id (filter is_local_source DATA_SOURCES))
   \<and> map_of MOCK_DATA ''workday''
       = Some (fst (execute_sql (Inl (PyExc False [])) (PStr ''SELECT 1'') ''local_workday'' ''q'' True))
   \<and> map_of MOCK_DATA (py_replace ''local_'' [] ''local_sap'') = None
   \<and> map_of MOCK_DATA ''salesforce''
       = Some (fst (execute_sql (Inl (PyExc False [])) (PStr ''SELECT 1'') ''local_sap'' ''q'' True))"
proof -
  have h1: "''local_workday'' \<in> set (map src_id (filter is_local_source DATA_SOURCES))"
    by (simp add: local_source_ids)
  have "''sap'' \<notin> set (map fst MOCK_DATA)"
    unfolding MOCK_DATA_keys by simp
  then have h2: "map_of MOCK_DATA (py_replace ''local_'' [] ''local_sap'') = None"
    by (simp add: py_replace_def map_of_eq_None_iff)
  from h1 execute_sql_local_fixture
         [of "Inl (PyExc False [])" "PStr ''SELECT 1''" "''local_workday''" "''q''"]
  obtain base where "''local_workday'' = ''local_'' @ base"
    and "map_of MOCK_DATA base
          = Some (fst (execute_sql (Inl (PyExc False [])) (PStr ''SELECT 1'') ''local_workday'' ''q'' True))"
    by blast
  then have w: "map_of MOCK_DATA ''workday''
       = Some (fst (execute_sql (Inl (PyExc False [])) (PStr ''SELECT 1'') ''local_workday'' ''q'' True))"
    by simp
  from h2 execute_sql_local_fixture
         [of "Inl (PyExc False [])" "PStr ''SELECT 1''" "''local_sap''" "''q''"]
  have "map_of MOCK_DATA ''salesforce''
       = Some (fst (execute_sql (Inl (PyExc False [])) (PStr ''SELECT 1'') ''local_sap'' ''q'' True))"
    by blast
  with h1 h2 w show ?thesis by blast
qed

subsection \<open>The plan generator\<close>

lemma LOCAL_RESPONSES_plans:
  "list_all (\<lambda>(k, p). \<exists>d sql ct fs. p = PDict d
      \<and> dict_get d ''sql'' PNone = PStr sql \<and> sql \<noteq> []
      \<and> dict_get d ''chart_type'' PNone = PStr ct \<and> ct \<in> {''bar'', ''line'', ''pie''}
      \<and> dict_get d ''followups'' PNone = PList fs \<and> length fs = 3) LOCAL_RESPONSES"
  by (simp add: LOCAL_RESPONSES_def dict_get_def)

lemma LOCAL_RESPONSES_plan:
  assumes "map_of LOCAL_RESPONSES k = Some p"
  shows "\<exists>d sql ct fs. p = PDict d
      \<and> dict_get d ''sql'' PNone = PStr sql \<and> sql \<noteq> []
      \<and> dict_get d ''chart_type'' PNone = PStr ct \<and> ct \<in> {''bar'', ''line'', ''pie''}
      \<and> dict_get d ''followups'' PNone = PList fs \<and> length fs = 3"
proof -
  from assms have "(k, p) \<in> set LOCAL_RESPONSES" by (rule map_of_SomeD)
  with LOCAL_RESPONSES_plans show ?thesis unfolding list_all_iff by fast
qed

lemma LOCAL_RESPONSES_salesforce: "\<exists>p. map_of LOCAL_RESPONSES ''salesforce'' = Some p"
  by (rule map_of_key_Some) (simp add: LOCAL_RESPONSES_keys)

lemma run_agent_local_eq:
  "run_agent jl outcome q m sid True =
     (case map_of LOCAL_RESPONSES (py_replace ''local_'' [] sid) of
        Some plan \<Rightarrow> plan
      | None \<Rightarrow> the (map_of LOCAL_RESPONSES ''salesforce''))"
  by (simp add: run_agent_def)

text \<open>
  C3. For each of the six offline identifiers of the registry, \<open>run_agent\<close> with
  \<open>is_local\<close> true returns the plan that \<open>LOCAL_RESPONSES\<close> holds under the identifier
  without its prefix. The plan has a non-empty \<open>sql\<close>, a \<open>chart_type\<close> among bar, line and
  pie, and three follow-ups. When the base identifier has no plan the salesforce plan is
  returned. The result depends on the source identifier only: not on the question, the
  model or the services.
\<close>

theorem run_agent_local_plan:
  "(sid \<in> set (map src_id (filter is_local_source DATA_SOURCES)) \<longrightarrow>
      (\<exists>base d sql ct fs. sid = ''local_'' @ base
         \<and> map_of LOCAL_RESPONSES base = Some (PDict d)
         \<and> run_agent jl outcome q m sid True = PDict d
         \<and> dict_get d ''sql'' PNone = PStr sql \<and> sql \<noteq> []
         \<and> dict_get d ''chart_type'' PNone = PStr ct \<and> ct \<in> {''bar'', ''line'', ''pie''}
         \<and> dict_get d ''followups'' PNone = PList fs \<and> length fs = 3))
   \<and> (map_of LOCAL_RESPONSES (py_replace ''local_'' [] sid) = None \<longrightarrow>
        map_of LOCAL_RESPONSES ''salesforce'' = Some (run_agent jl outcome q m sid True))
   \<and> run_agent jl outcome q m sid True = run_agent jl' outcome' q' m' sid True"
proof (intro conjI impI)
  assume "sid \<in> set (map src_id (filter is_local_source DATA_SOURCES))"
  then obtain base where b: "sid = ''local_'' @ base" "py_replace ''local_'' [] sid = base"
    "base \<in> set [''salesforce'', ''netsuite'', ''coupa'', ''workday'', ''jira'', ''inhouse'']"
    using local_source_base by blast
  from b(3) obtain p where p: "map_of LOCAL_RESPONSES base = Some p"
    using map_of_key_Some[of base LOCAL_RESPONSES] unfolding LOCAL_RESPONSES_keys by blast
  from LOCAL_RESPONSES_plan[OF p] obtain d sql ct fs where ok: "p = PDict d"
      "dict_get d ''sql'' PNone = PStr sql" "sql \<noteq> []"
      "dict_get d ''chart_type'' PNone = PStr ct" "ct \<in> {''bar'', ''line'', ''pie''}"
      "dict_get d ''followups'' PNone = PList fs" "length fs = 3"
    by blast
  have "run_agent jl outcome q m sid True = PDict d"
    by (simp add: run_agent_local_eq b(2) p ok(1))
  with b(1) p ok show "\<exists>base d sql ct fs. sid = ''local_'' @ base
         \<and> map_of LOCAL_RESPONSES base = Some (PDict d)
         \<and> run_agent jl outcome q m sid True = PDict d
         \<and> dict_get d ''sql'' PNone = PStr sql \<and> sql \<noteq> []
         \<and> dict_get d ''chart_type'' PNone = PStr ct \<and> ct \<in> {''bar'', ''line'', ''pie''}
         \<and> dict_get d ''followups'' PNone = PList fs \<and> length fs = 3"
    by blast
next
  assume "map_of LOCAL_RESPONSES (py_replace ''local_'' [] sid) = None"
  with LOCAL_RESPONSES_salesforce
  show "map_of LOCAL_RESPONSES ''salesforce'' = Some (run_agent jl outcome q m sid True)"
    by (auto simp: run_agent_local_eq)
next
  show "run_agent jl outcome q m sid True = run_agent jl' outcome' q' m' sid True"
    by (simp add: run_agent_local_eq)
qed

theorem run_agent_local_plan_witness:
  "''local_workday'' \<in> set (map src_id (filter is_local_source DATA_SOURCES))
   \<and> (\<exists>d fs. map_of LOCAL_RESPONSES ''workday'' = Some (PDict d)
         \<and> run_agent example_loads (Inr example_reply) ''who left?'' ''gemini-2.0-flash-001''
              ''local_workday'' True = PDict d
         \<and> dict_get d ''followups'' PNone = PList fs \<and> length fs = 3)
   \<and> map_of LOCAL_RESPONSES (py_replace ''local_'' [] ''local_sap'') = None
   \<and> map_of LOCAL_RESPONSES ''salesforce''
       = Some (run_agent example_loads (Inr example_reply) ''who left?'' ''gemini-2.0-flash-001''
                 ''local_sap'' True)"
proof -
  have h1: "''local_workday'' \<in> set (map src_id (filter is_local_source DATA_SOURCES))"
    by (simp add: local_source_ids)
  have "''sap'' \<notin> set (map fst LOCAL_RESPONSES)"
    unfolding LOCAL_RESPONSES_keys by simp
  then have h2: "map_of LOCAL_RESPONSES (py_replace ''local_'' [] ''local_sap'') = None"
    by (simp add: py_replace_def map_of_eq_None_iff)
  from h1 run_agent_local_plan
         [of "''local_workday''" example_loads "Inr example_reply" "''who left?''"
             "''gemini-2.0-flash-001''"]
  obtain base d fs where "''local_workday'' = ''local_'' @ base"
    and "map_of LOCAL_RESPONSES base = Some (PDict d)"
    and "run_agent example_loads (Inr example_reply) ''who left?'' ''gemini-2.0-flash-001''
           ''local_workday'' True = PDict d"
    and "dict_get d ''followups'' PNone = PList fs" and "length fs = 3"
    by blast
  then have w: "\<exists>d fs. map_of LOCAL_RESPONSES ''workday'' = Some (PDict d)
         \<and> run_agent example_loads (Inr example_reply) ''who left?'' ''gemini-2.0-flash-001''
              ''local_workday'' True = PDict d
         \<and> dict_get d ''followups'' PNone = PList fs \<and> length fs = 3"
    by auto
  from h2 run_agent_local_plan
         [of "''local_sap''" example_loads "Inr example_reply" "''who left?''"
             "''gemini-2.0-flash-001''"]
  have "map_of LOCAL_RESPONSES ''salesforce''
       = Some (run_agent example_loads (Inr example_reply) ''who left?'' ''gemini-2.0-flash-001''
                 ''local_sap'' True)"
    by blast
  with h1 h2 w show ?thesis by blast
qed

lemma LOCAL_RESPONSES_explanations:
  "list_all (\<lambda>(k, p). \<exists>d s. p = PDict d \<and> dict_get d ''explanation'' PNone = PStr s
       \<and> \<not> prefix vertex_error_prefix s) LOCAL_RESPONSES"
  by (simp add: LOCAL_RESPONSES_def dict_get_def vertex_error_prefix_def)

lemma clean_response_example: "clean_response example_reply = example_reply"
  by (simp add: clean_response_def example_reply_def py_strip_def lstrip_chars_def
        rstrip_chars_def is_space_def unicode_whitespace_def is_continuation_def
        sub_opening_fence_def sub_closing_fence_def code_fence_def suffix_to_prefix)

text \<open>
  C1. When the call of the generative backend raises, or \<open>json.loads\<close> raises on the
  cleaned response, the live plan generator returns a dictionary instead of raising:
  \<open>sql\<close> is the comment \<open>-- Error generating SQL\<close>, \<open>explanation\<close> is the exception's
  text behind the prefix \<open>vertex_error_prefix\<close>, \<open>chart_type\<close> is bar, \<open>x_col\<close> and
  \<open>y_col\<close> are empty strings, \<open>followups\<close> is the empty list, and \<open>error\<close> is the
  exception's text. No pre-authored explanation starts with that prefix.
\<close>

theorem run_agent_live_failure_plan:
  "(outcome = Inl e
      \<or> (\<exists>response_text. outcome = Inr response_text \<and> jl (clean_response response_text) = Inl e)
     \<longrightarrow> run_agent jl outcome q m sid False =
           PDict [(''sql'', PStr ''-- Error generating SQL''),
                  (''explanation'', PStr (vertex_error_prefix @ str_exc e)),
                  (''chart_type'', PStr ''bar''),
                  (''x_col'', PStr []),
                  (''y_col'', PStr []),
                  (''followups'', PList []),
                  (''error'', PStr (str_exc e))])
   \<and> run_agent jl outcome q m sid False = call_vertex_ai jl outcome q m (py_replace ''local_'' [] sid)
   \<and> list_all (\<lambda>(k, p). \<exists>d s. p = PDict d \<and> dict_get d ''explanation'' PNone = PStr s
         \<and> \<not> prefix vertex_error_prefix s) LOCAL_RESPONSES"
  using LOCAL_RESPONSES_explanations
  by (auto simp: run_agent_def call_vertex_ai_def error_plan_def)

theorem run_agent_live_failure_plan_witness:
  "run_agent example_loads (Inl (PyExc False ''503 unavailable'')) ''top deals?''
       ''gemini-2.0-flash-001'' ''salesforce'' False =
     PDict [(''sql'', PStr ''-- Error generating SQL''),
            (''explanation'', PStr (vertex_error_prefix @ ''503 unavailable'')),
            (''chart_type'', PStr ''bar''),
            (''x_col'', PStr []),
            (''y_col'', PStr []),
            (''followups'', PList []),
            (''error'', PStr ''503 unavailable'')]
   \<and> example_loads (clean_response ''not json'') = Inl (PyExc False ''Expecting value'')
   \<and> run_agent example_loads (Inr ''not json'') ''top deals?''
       ''gemini-2.0-flash-001'' ''salesforce'' False =
     PDict [(''sql'', PStr ''-- Error generating SQL''),
            (''explanation'', PStr (vertex_error_prefix @ ''Expecting value'')),
            (''chart_type'', PStr ''bar''),
            (''x_col'', PStr []),
            (''y_col'', PStr []),
            (''followups'', PList []),
            (''error'', PStr ''Expecting value'')]"
proof -
  have h: "example_loads (clean_response ''not json'') = Inl (PyExc False ''Expecting value'')"
    by (simp add: example_loads_def example_reply_def clean_response_def py_strip_def
          lstrip_chars_def rstrip_chars_def is_space_def unicode_whitespace_def
          is_continuation_def sub_opening_fence_def sub_closing_fence_def code_fence_def
          suffix_to_prefix)
  from run_agent_live_failure_plan
         [of "Inl (PyExc False ''503 unavailable'')" "PyExc False ''503 unavailable''" example_loads
             "''top deals?''" "''gemini-2.0-flash-001''" "''salesforce''"]
  have a: "run_agent example_loads (Inl (PyExc False ''503 unavailable'')) ''top deals?''
       ''gemini-2.0-flash-001'' ''salesforce'' False =
     PDict [(''sql'', PStr ''-- Error generating SQL''),
            (''explanation'', PStr (vertex_error_prefix @ ''503 unavailable'')),
            (''chart_type'', PStr ''bar''),
            (''x_col'', PStr []),
            (''y_col'', PStr []),
            (''followups'', PList []),
            (''error'', PStr ''503 unavailable'')]"
    by simp
  from h run_agent_live_failure_plan
         [of "Inr ''not json''" "PyExc False ''Expecting value''" example_loads
             "''top deals?''" "''gemini-2.0-flash-001''" "''salesforce''"]
  have b: "run_agent example_loads (Inr ''not json'') ''top deals?''
       ''gemini-2.0-flash-001'' ''salesforce'' False =
     PDict [(''sql'', PStr ''-- Error generating SQL''),
            (''explanation'', PStr (vertex_error_prefix @ ''Expecting value'')),
            (''chart_type'', PStr ''bar''),
            (''x_col'', PStr []),
            (''y_col'', PStr []),
            (''followups'', PList []),
            (''error'', PStr ''Expecting value'')]"
    by simp
  from a h b show ?thesis by blast
qed

lemma LOCAL_RESPONSES_bar:
  "list_all (\<lambda>(k, p). \<exists>d. p = PDict d \<and> map_of d ''chart_type'' = Some (PStr ''bar''))
     LOCAL_RESPONSES"
  by (simp add: LOCAL_RESPONSES_def)

lemma run_agent_local_bar:
  "\<exists>d. run_agent jl outcome q m sid True = PDict d \<and> map_of d ''chart_type'' = Some (PStr ''bar'')"
proof -
  obtain k p where "map_of LOCAL_RESPONSES k = Some p" "run_agent jl outcome q m sid True = p"
    using LOCAL_RESPONSES_salesforce
    by (cases "map_of LOCAL_RESPONSES (py_replace ''local_'' [] sid)")
       (auto simp: run_agent_local_eq)
  moreover from this have "(k, p) \<in> set LOCAL_RESPONSES"
    by (simp add: map_of_SomeD)
  ultimately show ?thesis
    using LOCAL_RESPONSES_bar unfolding list_all_iff by fast
qed

lemma chart_kind_of_default:
  "chart_kind_of (dict_get result ''chart_type'' (PStr ''bar'')) =
     (if map_of result ''chart_type'' = Some (PStr ''pie'') then PieChart
      else if map_of result ''chart_type'' = Some (PStr ''line'') then LineChart
      else BarChart)"
  by (auto simp: chart_kind_of_def dict_get_def split: option.splits)

lemma page_chart_call:
  assumes "\<not> df_empty df"
  shows "page_chart plotly result (Some df) =
     (case plotly df
             \<lparr>px_kind = (if map_of result ''chart_type'' = Some (PStr ''pie'') then PieChart
                         else if map_of result ''chart_type'' = Some (PStr ''line'') then LineChart
                         else BarChart),
              px_x = fst (chart_axes df (dict_get result ''x_col'' (PStr []))
                                        (dict_get result ''y_col'' (PStr []))),
              px_y = snd (chart_axes df (dict_get result ''x_col'' (PStr []))
                                        (dict_get result ''y_col'' (PStr [])))\<rparr> of
        Inl e \<Rightarrow> Inl e
      | Inr fig \<Rightarrow> Inr (Some fig))"
  using assms
  by (simp add: page_chart_def build_chart_def chart_kind_of_default Let_def)

lemma salesforce_fixture_columns:
  "columns_tolist (get_mock_df ''salesforce'')
     = [''stage'', ''deal_count'', ''total_value'', ''avg_days_in_stage'']"
  "select_dtypes_number (get_mock_df ''salesforce'')
     = [''deal_count'', ''total_value'', ''avg_days_in_stage'']"
  by (simp_all add: get_mock_df_def MOCK_DATA_def columns_tolist_def select_dtypes_number_def)

text \<open>
  C6, as claimed: every plan that \<open>run_agent\<close> returns has a \<open>chart_type\<close> among bar, line
  and pie, with bar substituted for an absent or other value. On the live path the value
  that \<open>json.loads\<close> returns is handed back as it is: when the backend answers with a
  JSON object whose \<open>chart_type\<close> is \<open>scatter\<close>, the plan holds \<open>scatter\<close>.
\<close>

theorem run_agent_chart_type_counterexample:
  "run_agent example_loads (Inr example_reply) ''top deals?'' ''gemini-2.0-flash-001''
       ''salesforce'' False
     = PDict [(''sql'', PStr ''SELECT 1''), (''explanation'', PStr ''One row.''),
              (''chart_type'', PStr ''scatter'')]
   \<and> PStr ''scatter'' \<notin> {PStr ''bar'', PStr ''line'', PStr ''pie''}"
  by (simp add: run_agent_def call_vertex_ai_def clean_response_example example_loads_def
        example_plan_def)

text \<open>
  C6, amended. A plan returned in local mode, and the plan returned on the live path when
  the backend call or the parsing raises, has \<open>chart_type\<close> bar. When the response
  parses, the parsed value is returned unchanged, whatever its \<open>chart_type\<close>. Bar is
  substituted where the plan is used: for a table that is not empty the page reads
  \<open>chart_type\<close> with the default bar, and \<open>build_chart\<close> asks plotly for a bar chart for
  every value other than pie and line. Whether plotly then returns a figure or raises is
  plotly's outcome, which the page passes on.
\<close>

theorem run_agent_chart_type:
  "(\<exists>d. run_agent jl outcome q m sid True = PDict d
         \<and> map_of d ''chart_type'' = Some (PStr ''bar''))
   \<and> (outcome = Inl e
        \<or> (\<exists>response_text. outcome = Inr response_text \<and> jl (clean_response response_text) = Inl e)
       \<longrightarrow> (\<exists>d. run_agent jl outcome q m sid False = PDict d
                 \<and> map_of d ''chart_type'' = Some (PStr ''bar'')))
   \<and> (outcome = Inr response_text \<and> jl (clean_response response_text) = Inr plan
       \<longrightarrow> run_agent jl outcome q m sid False = plan)
   \<and> (\<not> df_empty df
       \<longrightarrow> page_chart plotly result (Some df) =
             (case plotly df
                     \<lparr>px_kind = (if map_of result ''chart_type'' = Some (PStr ''pie'') then PieChart
                                 else if map_of result ''chart_type'' = Some (PStr ''line'')
                                 then LineChart
                                 else BarChart),
                      px_x = fst (chart_axes df (dict_get result ''x_col'' (PStr []))
                                                (dict_get result ''y_col'' (PStr []))),
                      px_y = snd (chart_axes df (dict_get result ''x_col'' (PStr []))
                                                (dict_get result ''y_col'' (PStr [])))\<rparr> of
                Inl e \<Rightarrow> Inl e
              | Inr fig \<Rightarrow> Inr (Some fig)))"
proof (intro conjI impI)
  show "\<exists>d. run_agent jl outcome q m sid True = PDict d
         \<and> map_of d ''chart_type'' = Some (PStr ''bar'')"
    by (rule run_agent_local_bar)
next
  assume "outcome = Inl e
        \<or> (\<exists>response_text. outcome = Inr response_text \<and> jl (clean_response response_text) = Inl e)"
  then have "run_agent jl outcome q m sid False = error_plan e"
    by (auto simp: run_agent_def call_vertex_ai_def)
  then show "\<exists>d. run_agent jl outcome q m sid False = PDict d
                 \<and> map_of d ''chart_type'' = Some (PStr ''bar'')"
    by (simp add: error_plan_def)
next
  assume "outcome = Inr response_text \<and> jl (clean_response response_text) = Inr plan"
  then show "run_agent jl outcome q m sid False = plan"
    by (simp add: run_agent_def call_vertex_ai_def)
next
  assume "\<not> df_empty df"
  then show "page_chart plotly result (Some df) =
             (case plotly df
                     \<lparr>px_kind = (if map_of result ''chart_type'' = Some (PStr ''pie'') then PieChart
                                 else if map_of result ''chart_type'' = Some (PStr ''line'')
                                 then LineChart
                                 else BarChart),
                      px_x = fst (chart_axes df (dict_get result ''x_col'' (PStr []))
                                                (dict_get result ''y_col'' (PStr []))),
                      px_y = snd (chart_axes df (dict_get result ''x_col'' (PStr []))
                                                (dict_get result ''y_col'' (PStr [])))\<rparr> of
                Inl e \<Rightarrow> Inl e
              | Inr fig \<Rightarrow> Inr (Some fig))"
    by (rule page_chart_call)
qed

theorem run_agent_chart_type_witness:
  "(\<exists>d. run_agent example_loads (Inl (PyExc False ''503 unavailable'')) ''top deals?''
            ''gemini-2.0-flash-001'' ''salesforce'' False = PDict d
         \<and> map_of d ''chart_type'' = Some (PStr ''bar''))
   \<and> example_loads (clean_response example_reply) = Inr example_plan
   \<and> run_agent example_loads (Inr example_reply) ''top deals?''
            ''gemini-2.0-flash-001'' ''salesforce'' False = example_plan
   \<and> \<not> df_empty (get_mock_df ''salesforce'')
   \<and> page_chart (\<lambda>df call. Inr call)
         [(''sql'', PStr ''SELECT 1''), (''explanation'', PStr ''One row.''),
          (''chart_type'', PStr ''scatter'')]
         (Some (get_mock_df ''salesforce''))
       = Inr (Some \<lparr>px_kind = BarChart, px_x = ''stage'', px_y = ''deal_count''\<rparr>)"
proof -
  have h: "example_loads (clean_response example_reply) = Inr example_plan"
    by (simp add: clean_response_example example_loads_def)
  have n: "\<not> df_empty (get_mock_df ''salesforce'')"
    by (rule get_mock_df_nonempty)
  have axes: "chart_axes (get_mock_df ''salesforce'') (PStr []) (PStr []) = (''stage'', ''deal_count'')"
    by (simp add: chart_axes_def salesforce_fixture_columns Let_def)
  from run_agent_chart_type
         [of example_loads "Inl (PyExc False ''503 unavailable'')" "''top deals?''"
             "''gemini-2.0-flash-001''" "''salesforce''" "PyExc False ''503 unavailable''"]
  have a: "\<exists>d. run_agent example_loads (Inl (PyExc False ''503 unavailable'')) ''top deals?''
            ''gemini-2.0-flash-001'' ''salesforce'' False = PDict d
         \<and> map_of d ''chart_type'' = Some (PStr ''bar'')"
    by blast
  from h n run_agent_chart_type
         [of example_loads "Inr example_reply" "''top deals?''"
             "''gemini-2.0-flash-001''" "''salesforce''" _ example_reply example_plan
             "get_mock_df ''salesforce''" "\<lambda>df call. Inr call"
             "[(''sql'', PStr ''SELECT 1''), (''explanation'', PStr ''One row.''),
               (''chart_type'', PStr ''scatter'')]"]
  have b: "run_agent example_loads (Inr example_reply) ''top deals?''
            ''gemini-2.0-flash-001'' ''salesforce'' False = example_plan"
    and c: "page_chart (\<lambda>df call. Inr call)
         [(''sql'', PStr ''SELECT 1''), (''explanation'', PStr ''One row.''),
          (''chart_type'', PStr ''scatter'')]
         (Some (get_mock_df ''salesforce''))
       = Inr (Some \<lparr>px_kind = BarChart, px_x = ''stage'', px_y = ''deal_count''\<rparr>)"
    by (simp_all add: dict_get_def axes)
  from a h b n c show ?thesis by blast
qed

subsection \<open>The axis fallback\<close>

lemma in_cols_str_of: "in_cols v cols \<Longrightarrow> v = PStr (str_of v) \<and> str_of v \<in> set cols"
  by (cases v) auto

lemma select_dtypes_number_subset: "set (select_dtypes_number df) \<subseteq> set (columns_tolist df)"
  by (auto simp: select_dtypes_number_def columns_tolist_def)

lemma chart_axes_in_cols:
  assumes "columns_tolist df \<noteq> []"
  shows "fst (chart_axes df x y) \<in> set (columns_tolist df)"
    and "snd (chart_axes df x y) \<in> set (columns_tolist df)"
proof -
  show "fst (chart_axes df x y) \<in> set (columns_tolist df)"
    using assms by (auto simp: chart_axes_def Let_def dest: in_cols_str_of)
  have "select_dtypes_number df \<noteq> [] \<Longrightarrow> hd (select_dtypes_number df) \<in> set (columns_tolist df)"
    using select_dtypes_number_subset[of df] hd_in_set by blast
  then show "snd (chart_axes df x y) \<in> set (columns_tolist df)"
    using assms by (auto simp: chart_axes_def Let_def dest: in_cols_str_of)
qed

text \<open>
  C8. For a table that is not empty, \<open>build_chart\<close> and \<open>_build_chart_html\<close> resolve the
  axes alike and hand them to plotly. The x axis is the requested \<open>x_col\<close> when that
  names a column, else the first column. The y axis is the requested \<open>y_col\<close> when that
  names a column other than the x axis; else the first numeric column, or the last
  column when no column is numeric. Both axes are columns of the table.
\<close>

theorem chart_axes_fallback:
  assumes "\<not> df_empty df"
  shows "\<exists>x y. chart_axes df x_col y_col = (x, y)
     \<and> x = (if in_cols x_col (columns_tolist df) then str_of x_col else hd (columns_tolist df))
     \<and> y = (if in_cols y_col (columns_tolist df) \<and> y_col \<noteq> PStr x then str_of y_col
              else if select_dtypes_number df \<noteq> [] then hd (select_dtypes_number df)
              else last (columns_tolist df))
     \<and> x \<in> set (columns_tolist df)
     \<and> y \<in> set (columns_tolist df)
     \<and> build_chart plotly (Some df) chart_type x_col y_col =
           (case plotly df \<lparr>px_kind = chart_kind_of chart_type, px_x = x, px_y = y\<rparr> of
              Inl e \<Rightarrow> Inl e
            | Inr fig \<Rightarrow> Inr (Some fig))
     \<and> build_chart_html plotly to_html (Some df) chart_type x_col y_col =
           (case plotly df \<lparr>px_kind = chart_kind_of chart_type, px_x = x, px_y = y\<rparr> of
              Inl e \<Rightarrow> Inl e
            | Inr fig \<Rightarrow> to_html fig)"
proof -
  from assms have ne: "columns_tolist df \<noteq> []"
    by (simp add: df_empty_def columns_tolist_def)
  obtain x y where xy: "chart_axes df x_col y_col = (x, y)"
    by (cases "chart_axes df x_col y_col")
  have b: "build_chart plotly (Some df) chart_type x_col y_col =
           (case plotly df \<lparr>px_kind = chart_kind_of chart_type, px_x = x, px_y = y\<rparr> of
              Inl e \<Rightarrow> Inl e
            | Inr fig \<Rightarrow> Inr (Some fig))"
    using assms by (simp add: build_chart_def xy)
  have h: "build_chart_html plotly to_html (Some df) chart_type x_col y_col =
           (case plotly df \<lparr>px_kind = chart_kind_of chart_type, px_x = x, px_y = y\<rparr> of
              Inl e \<Rightarrow> Inl e
            | Inr fig \<Rightarrow> to_html fig)"
    using assms by (simp add: build_chart_html_def xy)
  have x: "x = (if in_cols x_col (columns_tolist df) then str_of x_col else hd (columns_tolist df))"
    using xy by (auto simp: chart_axes_def Let_def)
  have y: "y = (if in_cols y_col (columns_tolist df) \<and> y_col \<noteq> PStr x then str_of y_col
                else if select_dtypes_number df \<noteq> [] then hd (select_dtypes_number df)
                else last (columns_tolist df))"
    using xy by (auto simp: chart_axes_def Let_def)
  have m: "x \<in> set (columns_tolist df)" "y \<in> set (columns_tolist df)"
    using chart_axes_in_cols[OF ne, of x_col y_col] xy by simp_all
  from xy x y m b h show ?thesis by blast
qed

theorem chart_axes_fallback_witness:
  "\<not> df_empty (get_mock_df ''salesforce'')
   \<and> chart_axes (get_mock_df ''salesforce'') (PStr ''region'') (PStr ''stage'')
         = (''stage'', ''deal_count'')
   \<and> build_chart (\<lambda>df call. Inr call) (Some (get_mock_df ''salesforce'')) (PStr ''bar'')
         (PStr ''region'') (PStr ''stage'')
         = Inr (Some \<lparr>px_kind = BarChart, px_x = ''stage'', px_y = ''deal_count''\<rparr>)
   \<and> \<not> df_empty \<lparr>index_len = 1, columns = [(''a'', StrCol [''u'']), (''b'', StrCol [''v''])]\<rparr>
   \<and> chart_axes \<lparr>index_len = 1, columns = [(''a'', StrCol [''u'']), (''b'', StrCol [''v''])]\<rparr>
         (PStr ''zz'') (PStr ''a'') = (''a'', ''b'')"
proof -
  let ?s = "get_mock_df ''salesforce''"
  let ?t = "\<lparr>index_len = 1, columns = [(''a'', StrCol [''u'']), (''b'', StrCol [''v''])]\<rparr>"
  have n1: "\<not> df_empty ?s"
    by (rule get_mock_df_nonempty)
  have n2: "\<not> df_empty ?t"
    by (simp add: df_empty_def)
  from chart_axes_fallback[OF n1, of "PStr ''region''" "PStr ''stage''" "\<lambda>df call. Inr call"
                              "PStr ''bar''" "\<lambda>fig. Inr []"]
  obtain x1 y1 where a1: "chart_axes ?s (PStr ''region'') (PStr ''stage'') = (x1, y1)"
    and x1: "x1 = (if in_cols (PStr ''region'') (columns_tolist ?s) then str_of (PStr ''region'')
                   else hd (columns_tolist ?s))"
    and y1: "y1 = (if in_cols (PStr ''stage'') (columns_tolist ?s) \<and> PStr ''stage'' \<noteq> PStr x1
                   then str_of (PStr ''stage'')
                   else if select_dtypes_number ?s \<noteq> [] then hd (select_dtypes_number ?s)
                   else last (columns_tolist ?s))"
    and b1: "build_chart (\<lambda>df call. Inr call) (Some ?s) (PStr ''bar'') (PStr ''region'')
               (PStr ''stage'')
             = (case Inr \<lparr>px_kind = chart_kind_of (PStr ''bar''), px_x = x1, px_y = y1\<rparr> of
                  Inl e \<Rightarrow> Inl e
                | Inr fig \<Rightarrow> Inr (Some fig))"
    by blast
  from x1 have x1': "x1 = ''stage''"
    by (simp add: salesforce_fixture_columns)
  from y1 have y1': "y1 = ''deal_count''"
    by (simp add: x1' salesforce_fixture_columns)
  from b1 have b1': "build_chart (\<lambda>df call. Inr call) (Some ?s) (PStr ''bar'') (PStr ''region'')
               (PStr ''stage'')
             = Inr (Some \<lparr>px_kind = BarChart, px_x = ''stage'', px_y = ''deal_count''\<rparr>)"
    by (simp add: x1' y1' chart_kind_of_def)
  from chart_axes_fallback[OF n2, of "PStr ''zz''" "PStr ''a''" "\<lambda>df call. Inr call"
                              "PStr ''pie''" "\<lambda>fig. Inr []"]
  obtain x2 y2 where a2: "chart_axes ?t (PStr ''zz'') (PStr ''a'') = (x2, y2)"
    and x2: "x2 = (if in_cols (PStr ''zz'') (columns_tolist ?t) then str_of (PStr ''zz'')
                   else hd (columns_tolist ?t))"
    and y2: "y2 = (if in_cols (PStr ''a'') (columns_tolist ?t) \<and> PStr ''a'' \<noteq> PStr x2
                   then str_of (PStr ''a'')
                   else if select_dtypes_number ?t \<noteq> [] then hd (select_dtypes_number ?t)
                   else last (columns_tolist ?t))"
    by blast
  from x2 have x2': "x2 = ''a''"
    by (simp add: columns_tolist_def)
  from y2 have y2': "y2 = ''b''"
    by (simp add: x2' columns_tolist_def select_dtypes_number_def)
  from n1 a1 x1' y1' b1' n2 a2 x2' y2' show ?thesis by simp
qed

subsection \<open>The KPI row\<close>






















subsection \<open>The orchestrator\<close>

text \<open>
  What \<open>run_query\<close> does when the plan is a dictionary whose explanation is a string (or
  absent): it appends the user turn and the agent turn, stores the plan, and stores the
  table when the error is \<open>None\<close>. The warning is appended when the error is a non-empty
  string, which is what \<open>if err:\<close> tests.
\<close>

lemma run_query_effect:
  assumes "run_agent (json_loads ext) (vertex ext) question mid (src_id source)
             (is_local_source source) = PDict d"
    and "dict_get d ''explanation'' (PStr []) = PStr explanation"
    and "execute_sql (bigquery ext) (dict_get d ''sql'' (PStr [])) (src_id source) question
           (is_local_source source) = (df, err)"
  shows "run_query ext st question mid source =
     (st\<lparr>messages := messages st @
            [\<lparr>msg_role = ''user'', msg_content = PStr question, msg_model = None\<rparr>,
             \<lparr>msg_role = ''ai'',
              msg_content = PStr (explanation @
                 (case err of None \<Rightarrow> []
                  | Some e \<Rightarrow> if e = [] then [] else query_error_prefix @ e)),
              msg_model = Some (if is_local_source source then ''Local Demo''
                                else model_label (get_model_by_id mid))\<rparr>],
          last_result := Some (PDict d),
          last_df := (case err of None \<Rightarrow> Some df | Some e \<Rightarrow> None)\<rparr>, None)"
  using assms
  by (cases err) (simp_all add: run_query_def Let_def iadd_str_def)

text \<open>A plan that is no dictionary makes \<open>run_query\<close> raise before it stores anything.\<close>

lemma run_query_plan_not_dict:
  assumes "run_agent (json_loads ext) (vertex ext) question mid (src_id source)
             (is_local_source source) = plan"
    and "\<forall>d. plan \<noteq> PDict d"
  shows "\<exists>exc. run_query ext st question mid source = (st, Some exc)"
proof (cases plan)
  case (PDict d)
  with assms(2) show ?thesis by simp
qed (simp_all add: run_query_def Let_def assms(1))

lemma get_source_by_label_Salesforce:
  "src_id (get_source_by_label ''Salesforce'') = ''salesforce''"
  "\<not> is_local_source (get_source_by_label ''Salesforce'')"
  by (simp_all add: get_source_by_label_def DATA_SOURCES_def is_local_source_def)

lemma get_model_by_id_flash:
  "model_label (get_model_by_id ''gemini-2.0-flash-001'')
     = ''Gemini 2.0 Flash '' @ [CHR 0xE2, CHR 0x9A, CHR 0xA1]"
  by (simp add: get_model_by_id_def AVAILABLE_MODELS_def)

text \<open>
  C7. The claim: \<open>run_query\<close> appends the user turn and the agent turn, appends the
  execution error to the agent turn as a warning exactly when the error is not \<open>None\<close>,
  and stores the table if and only if the error is \<open>None\<close>. The table slot is decided by
  \<open>err is None\<close>, but the warning by \<open>if err:\<close>, which is false for the empty string.
  In the example run the live query fails with an exception whose text is empty:
  \<open>execute_sql\<close> returns the empty string as the error, \<open>last_df\<close> becomes \<open>None\<close>, and
  the agent turn is the bare explanation, with no warning.
\<close>

theorem run_query_empty_error_text:
  "execute_sql (Inl (PyExc False [])) (PStr ''SELECT 1'') ''salesforce'' ''top deals?'' False
     = (empty_DataFrame, Some [])
   \<and> run_query \<lparr>json_loads = example_loads, vertex = Inr example_reply,
                bigquery = Inl (PyExc False [])\<rparr>
       st ''top deals?'' ''gemini-2.0-flash-001'' (get_source_by_label ''Salesforce'')
     = (st\<lparr>messages := messages st @
              [\<lparr>msg_role = ''user'', msg_content = PStr ''top deals?'', msg_model = None\<rparr>,
               \<lparr>msg_role = ''ai'', msg_content = PStr ''One row.'',
                msg_model = Some (''Gemini 2.0 Flash '' @ [CHR 0xE2, CHR 0x9A, CHR 0xA1])\<rparr>],
            last_result := Some example_plan,
            last_df := None\<rparr>, None)"
proof -
  have plan: "run_agent example_loads (Inr example_reply) ''top deals?'' ''gemini-2.0-flash-001''
                ''salesforce'' False = example_plan"
    by (simp add: run_agent_def call_vertex_ai_def clean_response_example example_loads_def)
  have exec: "execute_sql (Inl (PyExc False [])) sql ''salesforce'' ''top deals?'' False
                = (empty_DataFrame, Some [])" for sql
    by (simp add: execute_sql_def)
  have "run_query \<lparr>json_loads = example_loads, vertex = Inr example_reply,
                bigquery = Inl (PyExc False [])\<rparr>
       st ''top deals?'' ''gemini-2.0-flash-001'' (get_source_by_label ''Salesforce'')
     = (st\<lparr>messages := messages st @
              [\<lparr>msg_role = ''user'', msg_content = PStr ''top deals?'', msg_model = None\<rparr>,
               \<lparr>msg_role = ''ai'', msg_content = PStr ''One row.'',
                msg_model = Some (''Gemini 2.0 Flash '' @ [CHR 0xE2, CHR 0x9A, CHR 0xA1])\<rparr>],
            last_result := Some example_plan,
            last_df := None\<rparr>, None)"
    unfolding run_query_def
    by (simp add: get_source_by_label_Salesforce plan exec get_model_by_id_flash Let_def
          example_plan_def dict_get_def)
  with exec show ?thesis by simp
qed


end
